theory Spec2Isabelle
  imports Complex_Main
begin

text \<open>
  A model of the interactive Christmas tree: the gesture ingest of
  \<^verbatim>\<open>services/geminiLiveService.ts\<close> (the parser of the model's replies and the timer that
  submits camera frames), the formation animator of \<^verbatim>\<open>components/Tree.tsx\<close> and the camera
  of \<^verbatim>\<open>components/Experience.tsx\<close>, followed by the properties proved of them. The
  functions keep the names of the source; the built-ins of JavaScript, three.js and GLSL
  that the source calls are modelled beside them.
\<close>

section \<open>Data model (types.ts)\<close>

text \<open>
  \<^verbatim>\<open>export enum HandState { CLOSED = 'CLOSED', OPEN = 'OPEN', UNKNOWN = 'UNKNOWN' }\<close>
\<close>

datatype HandState = CLOSED | OPEN | UNKNOWN

text \<open>
  A JavaScript \<^verbatim>\<open>number\<close>. Finite doubles are modelled by the real number they denote:
  rounding, overflow to an infinity and the sign of zero are not modelled. The two
  infinities and NaN are values of their own, with the IEEE rules for them.
\<close>

datatype jsnum = Num real | PosInf | NegInf | NaN

fun jneg :: "jsnum \<Rightarrow> jsnum" where
  "jneg (Num a) = Num (- a)"
| "jneg PosInf = NegInf"
| "jneg NegInf = PosInf"
| "jneg NaN = NaN"

fun jadd :: "jsnum \<Rightarrow> jsnum \<Rightarrow> jsnum" where
  "jadd NaN _ = NaN"
| "jadd _ NaN = NaN"
| "jadd (Num a) (Num b) = Num (a + b)"
| "jadd PosInf NegInf = NaN"
| "jadd NegInf PosInf = NaN"
| "jadd PosInf _ = PosInf"
| "jadd NegInf _ = NegInf"
| "jadd (Num a) b = b"

fun jsign :: "jsnum \<Rightarrow> int" where
  "jsign (Num a) = (if a < 0 then -1 else if a = 0 then 0 else 1)"
| "jsign PosInf = 1"
| "jsign NegInf = -1"
| "jsign NaN = 0"

fun jmul :: "jsnum \<Rightarrow> jsnum \<Rightarrow> jsnum" where
  "jmul NaN _ = NaN"
| "jmul _ NaN = NaN"
| "jmul (Num a) (Num b) = Num (a * b)"
| "jmul a b =
     (if jsign a * jsign b = 0 then NaN else if jsign a * jsign b < 0 then NegInf else PosInf)"

text \<open>The order of the numbers that are not NaN.\<close>

fun jle :: "jsnum \<Rightarrow> jsnum \<Rightarrow> bool" where
  "jle NegInf _ = True"
| "jle _ PosInf = True"
| "jle (Num a) (Num b) = (a \<le> b)"
| "jle _ _ = False"

text \<open>\<^verbatim>\<open>Math.min\<close> and \<^verbatim>\<open>Math.max\<close> of two numbers: NaN as soon as one argument is NaN.\<close>

definition Math_min :: "jsnum \<Rightarrow> jsnum \<Rightarrow> jsnum" where
  "Math_min a b = (if a = NaN \<or> b = NaN then NaN else if jle a b then a else b)"

definition Math_max :: "jsnum \<Rightarrow> jsnum \<Rightarrow> jsnum" where
  "Math_max a b = (if a = NaN \<or> b = NaN then NaN else if jle a b then b else a)"

text \<open>
  \<^verbatim>\<open>export interface HandData { state: HandState; x: number; y: number; }\<close>
  The fields \<^verbatim>\<open>state\<close>, \<^verbatim>\<open>x\<close> and \<^verbatim>\<open>y\<close> carry the prefix \<open>hand_\<close> here, so that they
  do not take the names of variables.
\<close>

record HandData =
  hand_state :: HandState
  hand_x :: jsnum
  hand_y :: jsnum

section \<open>Interpolation primitives (three.js, GLSL)\<close>

text \<open>
  \<^verbatim>\<open>THREE.MathUtils.lerp(x, y, t)\<close> is \<^verbatim>\<open>(1 - t) * x + t * y\<close>: no clamping of \<open>t\<close>.
\<close>

definition lerp :: "real \<Rightarrow> real \<Rightarrow> real \<Rightarrow> real" where
  "lerp a b t = (1 - t) * a + t * b"

definition jlerp :: "jsnum \<Rightarrow> jsnum \<Rightarrow> jsnum \<Rightarrow> jsnum" where
  "jlerp a b t = jadd (jmul (jadd (Num 1) (jneg t)) a) (jmul t b)"

type_synonym vec3 = "real \<times> real \<times> real"

text \<open>
  \<^verbatim>\<open>Vector3.lerpVectors(v1, v2, alpha)\<close> sets each component to
  \<^verbatim>\<open>v1.c + (v2.c - v1.c) * alpha\<close>.
\<close>

fun lerpVectors :: "vec3 \<Rightarrow> vec3 \<Rightarrow> real \<Rightarrow> vec3" where
  "lerpVectors (x1, y1, z1) (x2, y2, z2) alpha =
     (x1 + (x2 - x1) * alpha, y1 + (y2 - y1) * alpha, z1 + (z2 - z1) * alpha)"

text \<open>GLSL \<^verbatim>\<open>mix(x, y, a)\<close> is \<^verbatim>\<open>x * (1 - a) + y * a\<close> on each component.\<close>

fun mix :: "vec3 \<Rightarrow> vec3 \<Rightarrow> real \<Rightarrow> vec3" where
  "mix (x1, y1, z1) (x2, y2, z2) a =
     (x1 * (1 - a) + x2 * a, y1 * (1 - a) + y2 * a, z1 * (1 - a) + z2 * a)"

text \<open>
  \<^verbatim>\<open>function pow(a, b) { return Math.pow(a, b); }\<close> (Tree.tsx, line 331) is only called
  with the exponent \<^verbatim>\<open>3.0\<close>, where \<^verbatim>\<open>Math.pow\<close> is the cube for every base; the exponent
  is a natural number here.
\<close>

definition pow :: "real \<Rightarrow> nat \<Rightarrow> real" where
  "pow a b = a ^ b"

text \<open>
  GLSL's built-in \<^verbatim>\<open>pow(x, y)\<close>, called in the vertex shader with the exponent \<^verbatim>\<open>3.0\<close>. The
  language leaves the result undefined for \<open>x < 0\<close>, and for \<open>x = 0\<close> with \<open>y \<le> 0\<close>:
  \<open>None\<close>.
\<close>

definition glsl_pow :: "real \<Rightarrow> nat \<Rightarrow> real option" where
  "glsl_pow x y = (if x < 0 \<or> (x = 0 \<and> y = 0) then None else Some (x ^ y))"

section \<open>Formation animator (components/Tree.tsx)\<close>

subsection \<open>FoliageSystem\<close>

text \<open>
  The vertex shader, lines 34 to 45: the cubic ease-out of \<^verbatim>\<open>uProgress\<close>, the blend
  of the two positions, and the wind sway added above a progress of 0.8.
\<close>

definition foliage_ease :: "real \<Rightarrow> real option" where
  "foliage_ease uProgress =
     (let t = uProgress in
      case glsl_pow (1 - t) 3 of None \<Rightarrow> None | Some p \<Rightarrow> Some (1 - p))"

definition foliage_blend :: "real \<Rightarrow> vec3 \<Rightarrow> vec3 \<Rightarrow> vec3 option" where
  "foliage_blend uProgress aChaosPos aTargetPos =
     (case foliage_ease uProgress of
        None \<Rightarrow> None
      | Some ease \<Rightarrow> Some (mix aChaosPos aTargetPos ease))"

definition foliageVertexShader_pos :: "real \<Rightarrow> real \<Rightarrow> vec3 \<Rightarrow> vec3 \<Rightarrow> vec3 option" where
  "foliageVertexShader_pos uProgress uTime aChaosPos aTargetPos =
     (case foliage_blend uProgress aChaosPos aTargetPos of
        None \<Rightarrow> None
      | Some (px, py, pz) \<Rightarrow>
          if uProgress > 0.8
          then Some (px + sin (uTime * 2 + py) * 0.05 * (py * 0.1), py,
                     pz + cos (uTime * 1.5 + py) * 0.05 * (py * 0.1))
          else Some (px, py, pz))"

text \<open>
  The state of the component: the two refs \<^verbatim>\<open>targetProgress\<close> and \<^verbatim>\<open>currentProgress\<close>
  (both \<^verbatim>\<open>useRef(1)\<close>) and the two uniforms the frame callback writes.
\<close>

record foliage =
  targetProgress :: real
  currentProgress :: real
  uProgress :: real
  uTime :: real

definition foliage_init :: foliage where
  "foliage_init = \<lparr>targetProgress = 1, currentProgress = 1, uProgress = 1, uTime = 0\<rparr>"

definition FoliageSystem_target :: "HandState \<Rightarrow> real" where
  "FoliageSystem_target s = (if s = OPEN then 0 else 1)"

definition FoliageSystem_speed :: "HandState \<Rightarrow> real" where
  "FoliageSystem_speed s = (if s = OPEN then 2.5 else 1.0)"

text \<open>
  The \<^verbatim>\<open>useFrame\<close> callback, lines 136 to 149. \<open>shaderRef\<close> says whether
  \<^verbatim>\<open>shaderRef.current\<close> is set; \<open>elapsedTime\<close> is \<^verbatim>\<open>state.clock.elapsedTime\<close>.
\<close>

definition FoliageSystem_useFrame :: "bool \<Rightarrow> HandData \<Rightarrow> real \<Rightarrow> real \<Rightarrow> foliage \<Rightarrow> foliage" where
  "FoliageSystem_useFrame shaderRef handData elapsedTime delta st =
     (if \<not> shaderRef then st
      else
        let tp = FoliageSystem_target (hand_state handData);
            speed = FoliageSystem_speed (hand_state handData);
            cp = lerp (currentProgress st) tp (delta * speed)
        in \<lparr>targetProgress = tp, currentProgress = cp, uProgress = cp, uTime = elapsedTime\<rparr>)"

text \<open>
  One rendered frame, as a callback receives it: whether the component's ref is set, the
  \<^verbatim>\<open>handData\<close> prop, \<^verbatim>\<open>state.clock.elapsedTime\<close> and \<^verbatim>\<open>delta\<close>.
\<close>

record frame =
  frame_ref :: bool
  frame_hand :: HandData
  frame_elapsed :: real
  frame_delta :: real

fun FoliageSystem_frames :: "frame list \<Rightarrow> foliage \<Rightarrow> foliage" where
  "FoliageSystem_frames [] st = st"
| "FoliageSystem_frames (f # fs) st =
     FoliageSystem_frames fs
       (FoliageSystem_useFrame (frame_ref f) (frame_hand f) (frame_elapsed f) (frame_delta f) st)"

subsection \<open>InstancedDecor\<close>

text \<open>One element of \<^verbatim>\<open>data\<close>, and the part of an \<^verbatim>\<open>Object3D\<close> the callback writes.\<close>

record item =
  target :: vec3
  chaos :: vec3
  item_scale :: real
  item_rotation :: vec3
  chaosRotation :: vec3

record object3d =
  position :: vec3
  rotation :: vec3
  scale :: vec3

definition object3d_init :: object3d where
  "object3d_init = \<lparr>position = (0, 0, 0), rotation = (0, 0, 0), scale = (1, 1, 1)\<rparr>"

text \<open>
  The state of the component: the ref \<^verbatim>\<open>currentProgress\<close>, the shared \<^verbatim>\<open>dummy\<close> and
  the transforms stored by \<^verbatim>\<open>setMatrixAt\<close>, in the order of \<^verbatim>\<open>data\<close>.
\<close>

record decor =
  decor_progress :: real
  dummy :: object3d
  instanceMatrix :: "object3d list"

definition decor_init :: decor where
  "decor_init = \<lparr>decor_progress = 1, dummy = object3d_init, instanceMatrix = []\<rparr>"

definition InstancedDecor_targetP :: "HandState \<Rightarrow> real" where
  "InstancedDecor_targetP s = (if s = OPEN then 0 else 1)"

text \<open>
  \<^verbatim>\<open>(handData.state === HandState.OPEN ? 3.0 : 1.5) / weight\<close>, for a weight that is
  not zero (see \<open>InstancedDecor_useFrame\<close> for zero).
\<close>

definition InstancedDecor_speed :: "real \<Rightarrow> HandState \<Rightarrow> real" where
  "InstancedDecor_speed weight s = (if s = OPEN then 3.0 else 1.5) / weight"

definition decor_ease :: "real \<Rightarrow> real" where
  "decor_ease t = 1.0 - pow (1.0 - t) 3"

text \<open>The body of \<^verbatim>\<open>data.forEach\<close>, lines 232 to 247, for one item.\<close>

definition decor_item :: "real \<Rightarrow> real \<Rightarrow> item \<Rightarrow> object3d \<Rightarrow> object3d" where
  "decor_item t elapsed it d =
     (let ease = decor_ease t;
          pos = lerpVectors (chaos it) (target it) ease;
          rot = (if t < 0.9
                 then (case (chaosRotation it, rotation d) of ((cx, cy, cz), (rx, ry, rz)) \<Rightarrow>
                         (cx + elapsed * (1 - t), cy + elapsed * (1 - t), rz))
                 else item_rotation it);
          s = item_scale it * (0.5 + 0.5 * t)
      in \<lparr>position = pos, rotation = rot, scale = (s, s, s)\<rparr>)"

fun decor_forEach :: "real \<Rightarrow> real \<Rightarrow> item list \<Rightarrow> object3d \<Rightarrow> object3d \<times> object3d list" where
  "decor_forEach t elapsed [] d = (d, [])"
| "decor_forEach t elapsed (it # its) d =
     (let d1 = decor_item t elapsed it d;
          (d2, ms) = decor_forEach t elapsed its d1
      in (d2, d1 # ms))"

text \<open>
  The \<^verbatim>\<open>useFrame\<close> callback, lines 219 to 249. \<open>meshRef\<close> says whether
  \<^verbatim>\<open>meshRef.current\<close> is set. With a weight of zero the speed is an infinity (or NaN) in
  JavaScript, which the reals do not have: the result is \<open>None\<close> then, where HOL's
  division would give zero.
\<close>

definition InstancedDecor_useFrame ::
  "real \<Rightarrow> item list \<Rightarrow> bool \<Rightarrow> HandData \<Rightarrow> real \<Rightarrow> real \<Rightarrow> decor \<Rightarrow> decor option" where
  "InstancedDecor_useFrame weight data meshRef handData elapsedTime delta st =
     (if \<not> meshRef then Some st
      else if weight = 0 then None
      else
        let targetP = InstancedDecor_targetP (hand_state handData);
            speed = InstancedDecor_speed weight (hand_state handData);
            t = lerp (decor_progress st) targetP (delta * speed);
            (d, ms) = decor_forEach t elapsedTime data (dummy st)
        in Some \<lparr>decor_progress = t, dummy = d, instanceMatrix = ms\<rparr>)"

fun InstancedDecor_frames :: "real \<Rightarrow> item list \<Rightarrow> frame list \<Rightarrow> decor \<Rightarrow> decor option" where
  "InstancedDecor_frames weight data [] st = Some st"
| "InstancedDecor_frames weight data (f # fs) st =
     (case InstancedDecor_useFrame weight data (frame_ref f) (frame_hand f) (frame_elapsed f)
             (frame_delta f) st of
        None \<Rightarrow> None
      | Some st' \<Rightarrow> InstancedDecor_frames weight data fs st')"

section \<open>Camera (components/Experience.tsx)\<close>

text \<open>
  The \<^verbatim>\<open>useFrame\<close> callback of \<^verbatim>\<open>CameraController\<close>, lines 15 to 27. The callback is
  declared with the one parameter \<^verbatim>\<open>state\<close>: the elapsed time \<open>delta\<close> that the frame
  loop passes as second argument is not used. \<^verbatim>\<open>lookAt\<close> changes the orientation only.
\<close>

record camera =
  cam_x :: jsnum
  cam_y :: jsnum
  cam_z :: jsnum

definition camera_init :: camera where
  "camera_init = \<lparr>cam_x = Num 0, cam_y = Num 4, cam_z = Num 20\<rparr>"

definition camera_targetX :: "HandData \<Rightarrow> jsnum" where
  "camera_targetX handData = (let baseX = Num 0 in jadd baseX (jmul (hand_x handData) (Num (-5))))"

definition camera_targetY :: "HandData \<Rightarrow> jsnum" where
  "camera_targetY handData = (let baseY = Num 4 in jadd baseY (jmul (hand_y handData) (Num 3)))"

definition CameraController_useFrame :: "HandData \<Rightarrow> real \<Rightarrow> camera \<Rightarrow> camera" where
  "CameraController_useFrame handData delta cam =
     cam\<lparr>cam_x := jlerp (cam_x cam) (camera_targetX handData) (Num 0.05),
         cam_y := jlerp (cam_y cam) (camera_targetY handData) (Num 0.05)\<rparr>"

section \<open>Gesture ingest (services/geminiLiveService.ts)\<close>

subsection \<open>Strings\<close>

text \<open>
  A JavaScript string is a sequence of UTF-16 code units, here natural numbers. \<open>str\<close>
  gives the code units of a literal.
\<close>

type_synonym jsstring = "nat list"

definition str :: "string \<Rightarrow> jsstring" where
  "str s = map of_char s"

subsection \<open>The regular expression\<close>

text \<open>
  \<^verbatim>\<open>text.match(/\{.*\}/)\<close>. The dot matches every code unit but the four line terminators,
  and the star is greedy: the match starts at the first \<^verbatim>\<open>{\<close> that is followed on its line
  by a \<^verbatim>\<open>}\<close>, and ends at the last \<^verbatim>\<open>}\<close> of that line. \<open>None\<close> is \<^verbatim>\<open>null\<close>; \<open>Some m\<close> is
  \<^verbatim>\<open>match[0]\<close>.
\<close>

definition LineTerminator :: "nat \<Rightarrow> bool" where
  "LineTerminator c \<longleftrightarrow> c = 0x0A \<or> c = 0x0D \<or> c = 0x2028 \<or> c = 0x2029"

text \<open>The longest prefix that ends with \<^verbatim>\<open>}\<close> (code unit 125).\<close>

fun upto_last_brace :: "jsstring \<Rightarrow> jsstring option" where
  "upto_last_brace [] = None"
| "upto_last_brace (c # cs) =
     (case upto_last_brace cs of
        Some m \<Rightarrow> Some (c # m)
      | None \<Rightarrow> if c = 125 then Some [c] else None)"

fun regex_match :: "jsstring \<Rightarrow> jsstring option" where
  "regex_match [] = None"
| "regex_match (c # cs) =
     (if c = 123
      then (case upto_last_brace (takeWhile (\<lambda>d. \<not> LineTerminator d) cs) of
              Some m \<Rightarrow> Some (c # m)
            | None \<Rightarrow> regex_match cs)
      else regex_match cs)"

subsection \<open>JSON.parse\<close>

text \<open>
  The values of JSON. The members of an object are kept in the order of the text, a
  repeated key included; reading a property takes the last one, as the object built by
  \<^verbatim>\<open>JSON.parse\<close> holds the last value of a repeated key.
\<close>

datatype json =
  JNull | JBool bool | JNumber real | JString jsstring | JArray "json list"
  | JObject "(jsstring \<times> json) list"

datatype token =
  TLBrace | TRBrace | TLBracket | TRBracket | TColon | TComma | TValue json

definition is_digit :: "nat \<Rightarrow> bool" where
  "is_digit c \<longleftrightarrow> 48 \<le> c \<and> c \<le> 57"

definition hex_digit :: "nat \<Rightarrow> nat option" where
  "hex_digit c =
     (if 48 \<le> c \<and> c \<le> 57 then Some (c - 48)
      else if 65 \<le> c \<and> c \<le> 70 then Some (c - 55)
      else if 97 \<le> c \<and> c \<le> 102 then Some (c - 87)
      else None)"

text \<open>The character after a backslash in a string: \<^verbatim>\<open>" \ / b f n r t\<close>.\<close>

definition escape_char :: "nat \<Rightarrow> nat option" where
  "escape_char c =
     (if c = 34 then Some 34 else if c = 92 then Some 92 else if c = 47 then Some 47
      else if c = 98 then Some 8 else if c = 102 then Some 12 else if c = 110 then Some 10
      else if c = 114 then Some 13 else if c = 116 then Some 9 else None)"

text \<open>
  A string, after its opening quote: up to the closing quote, with the escapes decoded.
  A code unit below 32 is not allowed. The first argument holds the decoded code units,
  last one first.
\<close>

fun lex_string :: "jsstring \<Rightarrow> jsstring \<Rightarrow> (jsstring \<times> jsstring) option" where
  "lex_string acc [] = None"
| "lex_string acc (c # cs) =
     (if c = 34 then Some (rev acc, cs)
      else if c = 92 then
        (case cs of
           [] \<Rightarrow> None
         | e # cs1 \<Rightarrow>
             if e = 117 then
               (case cs1 of
                  h1 # h2 # h3 # h4 # cs2 \<Rightarrow>
                    (case (hex_digit h1, hex_digit h2, hex_digit h3, hex_digit h4) of
                       (Some d1, Some d2, Some d3, Some d4) \<Rightarrow>
                         lex_string ((((d1 * 16 + d2) * 16 + d3) * 16 + d4) # acc) cs2
                     | _ \<Rightarrow> None)
                | _ \<Rightarrow> None)
             else
               (case escape_char e of
                  Some v \<Rightarrow> lex_string (v # acc) cs1
                | None \<Rightarrow> None))
      else if c < 32 then None
      else lex_string (c # acc) cs)"

definition digits_value :: "jsstring \<Rightarrow> nat" where
  "digits_value ds = foldl (\<lambda>a d. 10 * a + (d - 48)) 0 ds"

text \<open>\<open>m * 10\<^sup>e\<close> for an integer exponent.\<close>

definition scale10 :: "nat \<Rightarrow> int \<Rightarrow> real" where
  "scale10 m e = (if 0 \<le> e then real m * 10 ^ nat e else real m / 10 ^ nat (- e))"

text \<open>
  The fraction of a number: nothing, or a dot and at least one digit. The exponent:
  nothing, or \<^verbatim>\<open>e\<close> or \<^verbatim>\<open>E\<close>, an optional sign and at least one digit. A dot or an \<^verbatim>\<open>e\<close>
  that is not followed so is an error of the whole text, since nothing else may start
  with them.
\<close>

definition lex_fraction :: "jsstring \<Rightarrow> (jsstring \<times> jsstring) option" where
  "lex_fraction cs =
     (case cs of
        [] \<Rightarrow> Some ([], [])
      | c # r \<Rightarrow>
          if c = 46
          then (if takeWhile is_digit r = [] then None
                else Some (takeWhile is_digit r, dropWhile is_digit r))
          else Some ([], cs))"

definition lex_exponent :: "jsstring \<Rightarrow> (int \<times> jsstring) option" where
  "lex_exponent cs =
     (case cs of
        [] \<Rightarrow> Some (0, [])
      | c # r \<Rightarrow>
          if c = 101 \<or> c = 69
          then (let (sgn, r1) =
                      (case r of
                         [] \<Rightarrow> (1, r)
                       | s # r2 \<Rightarrow> if s = 43 then (1, r2) else if s = 45 then (- 1, r2) else (1, r))
                in if takeWhile is_digit r1 = [] then None
                   else Some (sgn * int (digits_value (takeWhile is_digit r1)),
                              dropWhile is_digit r1))
          else Some (0, cs))"

text \<open>
  A number: an optional minus, the integer part (a single 0, or digits that start with
  1 to 9), the fraction and the exponent.
\<close>

definition lex_number :: "jsstring \<Rightarrow> (real \<times> jsstring) option" where
  "lex_number cs =
     (let (neg, r0) = (case cs of [] \<Rightarrow> (False, cs) | c # r \<Rightarrow> if c = 45 then (True, r) else (False, cs));
          ip = (case r0 of [] \<Rightarrow> [] | d # r \<Rightarrow> if d = 48 then [d] else takeWhile is_digit r0);
          r1 = drop (length ip) r0
      in if ip = [] then None
         else
           (case lex_fraction r1 of
              None \<Rightarrow> None
            | Some (fp, r2) \<Rightarrow>
                (case lex_exponent r2 of
                   None \<Rightarrow> None
                 | Some (e, r3) \<Rightarrow>
                     let v = scale10 (digits_value (ip @ fp)) (e - int (length fp))
                     in Some (if neg then - v else v, r3))))"

definition lex_literal :: "jsstring \<Rightarrow> (json \<times> jsstring) option" where
  "lex_literal cs =
     (if take 4 cs = str ''true'' then Some (JBool True, drop 4 cs)
      else if take 5 cs = str ''false'' then Some (JBool False, drop 5 cs)
      else if take 4 cs = str ''null'' then Some (JNull, drop 4 cs)
      else None)"

text \<open>Each lexer leaves less than it was given: the tokenizer below terminates.\<close>

lemma lex_string_length: "lex_string acc cs = Some (s, rest) \<Longrightarrow> length rest < length cs"
proof (induction "length cs" arbitrary: acc cs rule: less_induct)
  case less
  obtain c cs0 where cs: "cs = c # cs0"
    using less.prems by (cases cs) auto
  note p = less.prems [unfolded cs]
  show ?case
  proof (cases "c = 34")
    case True
    then show ?thesis using p cs by simp
  next
    case q: False
    show ?thesis
    proof (cases "c = 92")
      case True
      then obtain e cs1 where cs0: "cs0 = e # cs1"
        using p q by (cases cs0) auto
      show ?thesis
      proof (cases "e = 117")
        case u: True
        then obtain h1 h2 h3 h4 cs2 where cs1: "cs1 = h1 # h2 # h3 # h4 # cs2"
          using p q True cs0 by (auto split: list.splits)
        then obtain d1 d2 d3 d4 where d: "hex_digit h1 = Some d1" "hex_digit h2 = Some d2"
            "hex_digit h3 = Some d3" "hex_digit h4 = Some d4"
          using p q True cs0 u by (auto split: option.splits)
        have "lex_string ((((d1 * 16 + d2) * 16 + d3) * 16 + d4) # acc) cs2 = Some (s, rest)"
          using p q True cs0 u cs1 d by simp
        then have "length rest < length cs2"
          using less.hyps [of cs2] cs cs0 cs1 by simp
        then show ?thesis using cs cs0 cs1 by simp
      next
        case nu: False
        then obtain v where v: "escape_char e = Some v"
          using p q True cs0 by (auto split: option.splits)
        have "lex_string (v # acc) cs1 = Some (s, rest)"
          using p q True cs0 nu v by simp
        then have "length rest < length cs1"
          using less.hyps [of cs1] cs cs0 by simp
        then show ?thesis using cs cs0 by simp
      qed
    next
      case b: False
      then have c32: "\<not> c < 32" using p q by (auto split: if_splits)
      have "lex_string (c # acc) cs0 = Some (s, rest)"
        using p q b c32 by simp
      then have "length rest < length cs0"
        using less.hyps [of cs0] cs by simp
      then show ?thesis using cs by simp
    qed
  qed
qed

lemma lex_fraction_length: "lex_fraction cs = Some (fp, rest) \<Longrightarrow> length rest \<le> length cs"
  by (auto simp: lex_fraction_def split: list.splits if_splits
      intro: le_trans [OF length_dropWhile_le])

lemma lex_exponent_length: "lex_exponent cs = Some (e, rest) \<Longrightarrow> length rest \<le> length cs"
  by (auto simp: lex_exponent_def Let_def split: list.splits if_splits prod.splits
      intro: le_trans [OF length_dropWhile_le])

lemma lex_number_length:
  assumes "lex_number cs = Some (v, rest)"
  shows "length rest < length cs"
proof -
  obtain neg r0 where n: "(case cs of [] \<Rightarrow> (False, cs) | c # r \<Rightarrow> if c = 45 then (True, r) else (False, cs)) = (neg, r0)"
    by (cases "(case cs of [] \<Rightarrow> (False, cs) | c # r \<Rightarrow> if c = 45 then (True, r) else (False, cs))")
  define ip where "ip = (case r0 of [] \<Rightarrow> [] | d # r \<Rightarrow> if d = 48 then [d] else takeWhile is_digit r0)"
  define r1 where "r1 = drop (length ip) r0"
  have r0: "length r0 \<le> length cs" using n by (auto split: list.splits if_splits)
  have ip: "ip \<noteq> []" using assms n by (auto simp: lex_number_def Let_def ip_def split: if_splits)
  have "length ip \<le> length r0"
    by (auto simp: ip_def length_takeWhile_le split: list.splits)
  then have r1: "length r1 < length r0" using ip by (cases ip) (auto simp: r1_def)
  obtain fp r2 where f: "lex_fraction r1 = Some (fp, r2)"
    using assms n ip by (auto simp: lex_number_def Let_def ip_def r1_def split: if_splits option.splits)
  obtain e r3 where e: "lex_exponent r2 = Some (e, r3)"
    using assms n ip f by (auto simp: lex_number_def Let_def ip_def r1_def split: if_splits option.splits)
  have "rest = r3"
    using assms n ip f e by (auto simp: lex_number_def Let_def ip_def r1_def split: if_splits)
  then show ?thesis
    using lex_fraction_length [OF f] lex_exponent_length [OF e] r1 r0 by simp
qed

lemma lex_literal_length: "lex_literal cs = Some (v, rest) \<Longrightarrow> length rest < length cs"
  by (cases cs) (auto simp: lex_literal_def str_def split: if_splits)

text \<open>
  The tokens of a text, or \<open>None\<close> where no token starts. White space between tokens is
  space, tab, line feed and carriage return.
\<close>

function tokenize :: "jsstring \<Rightarrow> token list option" where
  "tokenize [] = Some []"
| "tokenize (c # cs) =
     (if c = 32 \<or> c = 9 \<or> c = 10 \<or> c = 13 then tokenize cs
      else if c = 123 then map_option (Cons TLBrace) (tokenize cs)
      else if c = 125 then map_option (Cons TRBrace) (tokenize cs)
      else if c = 91 then map_option (Cons TLBracket) (tokenize cs)
      else if c = 93 then map_option (Cons TRBracket) (tokenize cs)
      else if c = 58 then map_option (Cons TColon) (tokenize cs)
      else if c = 44 then map_option (Cons TComma) (tokenize cs)
      else if c = 34 then
        (case lex_string [] cs of
           None \<Rightarrow> None
         | Some (s, rest) \<Rightarrow> map_option (Cons (TValue (JString s))) (tokenize rest))
      else if c = 45 \<or> is_digit c then
        (case lex_number (c # cs) of
           None \<Rightarrow> None
         | Some (v, rest) \<Rightarrow> map_option (Cons (TValue (JNumber v))) (tokenize rest))
      else
        (case lex_literal (c # cs) of
           None \<Rightarrow> None
         | Some (v, rest) \<Rightarrow> map_option (Cons (TValue v)) (tokenize rest)))"
  by pat_completeness auto
termination
proof (relation "measure length")
  show "wf (measure length)" by simp
qed (auto dest: lex_string_length lex_number_length lex_literal_length)

text \<open>
  The grammar, as a machine over the tokens. The stack holds the arrays and objects that
  are open: an array with its elements so far, an object with its members so far, and
  an object with its members and the key whose value is being read.
\<close>

datatype frame_json =
  InArray "json list" | InObject "(jsstring \<times> json) list"
  | InMember "(jsstring \<times> json) list" jsstring

datatype expect =
  Value | ValueOrClose | KeyOrClose | Key | Colon | Done json

fun open_value :: "frame_json list \<Rightarrow> token \<Rightarrow> (expect \<times> frame_json list) option" where
  "open_value stk TLBracket = Some (ValueOrClose, InArray [] # stk)"
| "open_value stk TLBrace = Some (KeyOrClose, InObject [] # stk)"
| "open_value stk (TValue v) = Some (Done v, stk)"
| "open_value stk _ = None"

fun parse_step :: "expect \<Rightarrow> frame_json list \<Rightarrow> token \<Rightarrow> (expect \<times> frame_json list) option" where
  "parse_step Value stk t = open_value stk t"
| "parse_step ValueOrClose (InArray els # stk) TRBracket = Some (Done (JArray els), stk)"
| "parse_step ValueOrClose stk t = open_value stk t"
| "parse_step KeyOrClose (InObject ms # stk) TRBrace = Some (Done (JObject ms), stk)"
| "parse_step KeyOrClose (InObject ms # stk) (TValue (JString k)) = Some (Colon, InMember ms k # stk)"
| "parse_step Key (InObject ms # stk) (TValue (JString k)) = Some (Colon, InMember ms k # stk)"
| "parse_step Colon stk TColon = Some (Value, stk)"
| "parse_step (Done v) (InArray els # stk) TComma = Some (Value, InArray (els @ [v]) # stk)"
| "parse_step (Done v) (InArray els # stk) TRBracket = Some (Done (JArray (els @ [v])), stk)"
| "parse_step (Done v) (InMember ms k # stk) TComma = Some (Key, InObject (ms @ [(k, v)]) # stk)"
| "parse_step (Done v) (InMember ms k # stk) TRBrace = Some (Done (JObject (ms @ [(k, v)])), stk)"
| "parse_step _ _ _ = None"

fun parse_tokens :: "expect \<Rightarrow> frame_json list \<Rightarrow> token list \<Rightarrow> json option" where
  "parse_tokens e stk [] = (case (e, stk) of (Done v, []) \<Rightarrow> Some v | _ \<Rightarrow> None)"
| "parse_tokens e stk (t # ts) =
     (case parse_step e stk t of
        None \<Rightarrow> None
      | Some (e1, stk1) \<Rightarrow> parse_tokens e1 stk1 ts)"

text \<open>\<^verbatim>\<open>JSON.parse(text)\<close>: the value, or \<open>None\<close> for a \<^verbatim>\<open>SyntaxError\<close>.\<close>

definition JSON_parse :: "jsstring \<Rightarrow> json option" where
  "JSON_parse text =
     (case tokenize text of None \<Rightarrow> None | Some ts \<Rightarrow> parse_tokens Value [] ts)"

subsection \<open>Values read from the parsed object\<close>

text \<open>
  \<^verbatim>\<open>json.state\<close>, \<^verbatim>\<open>json.x\<close>, \<^verbatim>\<open>json.y\<close>: the property of a parsed value, for these three
  names, which no prototype defines. \<open>None\<close> is \<^verbatim>\<open>undefined\<close>. (On \<^verbatim>\<open>null\<close> the read
  throws; \<open>tryParseJSON\<close> has that case.)
\<close>

definition get_property :: "json \<Rightarrow> jsstring \<Rightarrow> json option" where
  "get_property v k = (case v of JObject ms \<Rightarrow> map_of (rev ms) k | _ \<Rightarrow> None)"

text \<open>
  Whether a value is truthy. A number literal of magnitude at most \<open>2\<^sup>-\<^sup>1\<^sup>0\<^sup>7\<^sup>5\<close> is read as
  the double zero, which is falsy.
\<close>

fun truthy :: "json option \<Rightarrow> bool" where
  "truthy None = False"
| "truthy (Some JNull) = False"
| "truthy (Some (JBool b)) = b"
| "truthy (Some (JNumber n)) = (1 / 2 ^ 1075 < \<bar>n\<bar>)"
| "truthy (Some (JString s)) = (s \<noteq> [])"
| "truthy (Some (JArray xs)) = True"
| "truthy (Some (JObject ms)) = True"

text \<open>\<^verbatim>\<open>typeof v === 'number'\<close>.\<close>

fun typeof_number :: "json option \<Rightarrow> bool" where
  "typeof_number (Some (JNumber n)) = True"
| "typeof_number _ = False"

subsection \<open>ToNumber\<close>

text \<open>
  The conversion that \<^verbatim>\<open>Math.min\<close> applies to its arguments. For a string it is the
  numeric value of the string (StringToNumber of ECMAScript): white space around it is
  dropped, the empty string is 0, and anything that is not a numeric literal is NaN.
\<close>

definition StrWhiteSpaceChar :: "nat \<Rightarrow> bool" where
  "StrWhiteSpaceChar c \<longleftrightarrow>
     c \<in> {9, 10, 11, 12, 13, 32, 160, 0x1680, 0x2028, 0x2029, 0x202F, 0x205F, 0x3000, 0xFEFF}
     \<or> (0x2000 \<le> c \<and> c \<le> 0x200A)"

definition trim :: "jsstring \<Rightarrow> jsstring" where
  "trim s = rev (dropWhile StrWhiteSpaceChar (rev (dropWhile StrWhiteSpaceChar s)))"

text \<open>Digits of a literal in base 16, 8 or 2: at least one, and all below the base.\<close>

definition radix_literal :: "nat \<Rightarrow> jsstring \<Rightarrow> jsnum" where
  "radix_literal r ds =
     (if ds \<noteq> [] \<and> list_all (\<lambda>c. case hex_digit c of Some v \<Rightarrow> v < r | None \<Rightarrow> False) ds
      then Num (real (foldl (\<lambda>a c. r * a + the (hex_digit c)) 0 ds))
      else NaN)"

text \<open>
  The exponent of a decimal literal, which must reach the end of the string: nothing, or
  \<^verbatim>\<open>e\<close> or \<^verbatim>\<open>E\<close>, an optional sign and digits only.
\<close>

definition str_exponent :: "jsstring \<Rightarrow> int option" where
  "str_exponent cs =
     (case cs of
        [] \<Rightarrow> Some 0
      | c # r \<Rightarrow>
          if c = 101 \<or> c = 69
          then (let (sgn, ds) =
                      (case r of
                         [] \<Rightarrow> (1, r)
                       | s # r2 \<Rightarrow> if s = 43 then (1, r2) else if s = 45 then (- 1, r2) else (1, r))
                in if ds \<noteq> [] \<and> list_all is_digit ds then Some (sgn * int (digits_value ds))
                   else None)
          else None)"

text \<open>
  \<^verbatim>\<open>Infinity\<close>, or digits with an optional fraction and exponent, or a dot with digits
  and an optional exponent.
\<close>

definition StrUnsignedDecimalLiteral :: "jsstring \<Rightarrow> jsnum" where
  "StrUnsignedDecimalLiteral s =
     (if s = str ''Infinity'' then PosInf
      else
        let ip = takeWhile is_digit s;
            r1 = dropWhile is_digit s;
            (fp, r2) = (case r1 of
                          [] \<Rightarrow> ([], [])
                        | c # r \<Rightarrow> if c = 46 then (takeWhile is_digit r, dropWhile is_digit r)
                                   else ([], r1))
        in if ip = [] \<and> fp = [] then NaN
           else (case str_exponent r2 of
                   None \<Rightarrow> NaN
                 | Some e \<Rightarrow> Num (scale10 (digits_value (ip @ fp)) (e - int (length fp)))))"

definition StringToNumber :: "jsstring \<Rightarrow> jsnum" where
  "StringToNumber s =
     (let t = trim s in
      if t = [] then Num 0
      else if take 2 t = str ''0x'' \<or> take 2 t = str ''0X'' then radix_literal 16 (drop 2 t)
      else if take 2 t = str ''0o'' \<or> take 2 t = str ''0O'' then radix_literal 8 (drop 2 t)
      else if take 2 t = str ''0b'' \<or> take 2 t = str ''0B'' then radix_literal 2 (drop 2 t)
      else if take 1 t = str ''+'' then StrUnsignedDecimalLiteral (drop 1 t)
      else if take 1 t = str ''-'' then jneg (StrUnsignedDecimalLiteral (drop 1 t))
      else StrUnsignedDecimalLiteral t)"

text \<open>
  An array or an object is first made a string. The string of a number is not spelled
  out here: converted back it is the number. The string of an array joins the strings
  of its elements with commas, \<^verbatim>\<open>null\<close> counting as the empty string. The string of an
  object is \<^verbatim>\<open>[object Object]\<close>, unless the object has a member \<^verbatim>\<open>toString\<close> of its own,
  which is not a function: then the conversion throws a \<^verbatim>\<open>TypeError\<close>, \<open>None\<close> here.
\<close>

datatype string_of = Chars jsstring | OfNumber real | Joined "string_of list"

fun ToString_element :: "json \<Rightarrow> string_of option" where
  "ToString_element JNull = Some (Chars [])"
| "ToString_element (JBool b) = Some (Chars (if b then str ''true'' else str ''false''))"
| "ToString_element (JNumber n) = Some (OfNumber n)"
| "ToString_element (JString s) = Some (Chars s)"
| "ToString_element (JArray xs) =
     (if list_all (\<lambda>r. r \<noteq> None) (map ToString_element xs)
      then Some (Joined (map (\<lambda>x. the (ToString_element x)) xs))
      else None)"
| "ToString_element (JObject ms) =
     (if map_of ms (str ''toString'') \<noteq> None then None else Some (Chars (str ''[object Object]'')))"

fun string_of_to_number :: "string_of \<Rightarrow> jsnum" where
  "string_of_to_number (Chars s) = StringToNumber s"
| "string_of_to_number (OfNumber n) = Num n"
| "string_of_to_number (Joined []) = Num 0"
| "string_of_to_number (Joined [s]) = string_of_to_number s"
| "string_of_to_number (Joined (s # t # ss)) = NaN"

text \<open>\<^verbatim>\<open>ToNumber\<close> of a value read from the parsed object; \<open>None\<close> is a \<^verbatim>\<open>TypeError\<close>.\<close>

fun ToNumber :: "json option \<Rightarrow> jsnum option" where
  "ToNumber None = Some NaN"
| "ToNumber (Some JNull) = Some (Num 0)"
| "ToNumber (Some (JBool b)) = Some (Num (if b then 1 else 0))"
| "ToNumber (Some (JNumber n)) = Some (Num n)"
| "ToNumber (Some (JString s)) = Some (StringToNumber s)"
| "ToNumber (Some (JArray xs)) = map_option string_of_to_number (ToString_element (JArray xs))"
| "ToNumber (Some (JObject ms)) =
     map_option string_of_to_number (ToString_element (JObject ms))"

subsection \<open>tryParseJSON and handleMessage\<close>

text \<open>
  \<^verbatim>\<open>tryParseJSON(text)\<close>, lines 93 to 110. The result is the list of the signals passed
  to the registered observer: none or one. \<open>onHandDataCallback\<close> says whether an observer
  is registered; without one the optional call evaluates nothing. Every exception inside
  is caught and ignored: the \<^verbatim>\<open>SyntaxError\<close> of \<^verbatim>\<open>JSON.parse\<close>, and the \<^verbatim>\<open>TypeError\<close> of a
  property read on \<^verbatim>\<open>null\<close> or of a conversion to a number.
\<close>

definition clamp_unit :: "jsnum \<Rightarrow> jsnum" where
  "clamp_unit v = Math_max (Num (- 1)) (Math_min (Num 1) v)"

definition tryParseJSON :: "bool \<Rightarrow> jsstring \<Rightarrow> HandData list" where
  "tryParseJSON onHandDataCallback text =
     (case regex_match text of
        None \<Rightarrow> []
      | Some m \<Rightarrow>
          (case JSON_parse m of
             None \<Rightarrow> []
           | Some JNull \<Rightarrow> []
           | Some json \<Rightarrow>
               if truthy (get_property json (str ''state''))
                  \<and> typeof_number (get_property json (str ''x''))
               then
                 if \<not> onHandDataCallback then []
                 else
                   (case (ToNumber (get_property json (str ''x'')),
                          ToNumber (get_property json (str ''y''))) of
                      (Some nx, Some ny) \<Rightarrow>
                        [\<lparr>hand_state =
                            (if get_property json (str ''state'') = Some (JString (str ''OPEN''))
                             then OPEN else CLOSED),
                          hand_x = clamp_unit nx,
                          hand_y = clamp_unit ny\<rparr>]
                    | _ \<Rightarrow> [])
               else []))"

text \<open>
  \<^verbatim>\<open>handleMessage(message)\<close>, lines 73 to 91. The argument is
  \<^verbatim>\<open>message.serverContent?.modelTurn?.parts\<close>: \<open>None\<close> when it is missing, else the parts,
  each with its \<^verbatim>\<open>text\<close> if it has one. A part without text or with the empty text is
  skipped.
\<close>

definition handleMessage :: "bool \<Rightarrow> jsstring option list option \<Rightarrow> HandData list" where
  "handleMessage onHandDataCallback parts =
     (case parts of
        None \<Rightarrow> []
      | Some ps \<Rightarrow>
          concat (map (\<lambda>part. case part of
                                None \<Rightarrow> []
                              | Some text \<Rightarrow> if text = [] then []
                                             else tryParseJSON onHandDataCallback text) ps))"

subsection \<open>startVideoStreaming\<close>

text \<open>
  The session promise is \<^verbatim>\<open>null\<close> (\<open>None\<close>) until \<^verbatim>\<open>connect\<close> stores the promise of
  \<^verbatim>\<open>ai.live.connect\<close>, which is pending until the session is established.
\<close>

datatype promise = Pending | Fulfilled | Rejected

record media =
  media_data :: jsstring
  mimeType :: jsstring

text \<open>
  The service, as far as the timer's callback reads and writes it: the session promise,
  the frames whose \<^verbatim>\<open>then\<close> callback waits for the promise, the arguments of the calls of
  \<^verbatim>\<open>session.sendRealtimeInput\<close> so far, and the size of the canvas.
\<close>

record service =
  sessionPromise :: "promise option"
  waiting :: "jsstring list"
  sent :: "media list"
  canvas_size :: "nat \<times> nat"

text \<open>The two calls of \<^verbatim>\<open>sendRealtimeInput\<close> for one frame, lines 129 to 141.\<close>

definition frame_inputs :: "jsstring \<Rightarrow> media list" where
  "frame_inputs base64Data =
     [\<lparr>media_data = base64Data, mimeType = str ''image/jpeg''\<rparr>,
      \<lparr>media_data = str ''QW5hbHl6ZSBoYW5k'', mimeType = str ''text/plain''\<rparr>]"

datatype tick_outcome = Skipped | Submitted | Deferred | UnhandledRejection

text \<open>
  One tick of the timer, lines 118 to 144. \<open>ctx\<close> says whether the canvas gave a 2D
  context; \<open>base64Data\<close> is what \<^verbatim>\<open>canvas.toDataURL\<close> gives for the frame drawn. The
  callback of \<^verbatim>\<open>then\<close> runs once the promise is fulfilled: at once (after the tick's own
  code) for a session that is established, later for a pending one, never for a
  rejected one, where the promise that \<^verbatim>\<open>then\<close> returns is rejected and nobody handles it.
\<close>

definition startVideoStreaming_tick ::
  "bool \<Rightarrow> nat \<Rightarrow> nat \<Rightarrow> jsstring \<Rightarrow> service \<Rightarrow> tick_outcome \<times> service" where
  "startVideoStreaming_tick ctx videoWidth videoHeight base64Data s =
     (case sessionPromise s of
        None \<Rightarrow> (Skipped, s)
      | Some p \<Rightarrow>
          if \<not> ctx \<or> videoWidth = 0 then (Skipped, s)
          else
            let s1 = s\<lparr>canvas_size := (videoWidth div 2, videoHeight div 2)\<rparr> in
            (case p of
               Fulfilled \<Rightarrow> (Submitted, s1\<lparr>sent := sent s1 @ frame_inputs base64Data\<rparr>)
             | Pending \<Rightarrow> (Deferred, s1\<lparr>waiting := waiting s1 @ [base64Data]\<rparr>)
             | Rejected \<Rightarrow> (UnhandledRejection, s1)))"

text \<open>The session is established: the waiting callbacks run, in their order.\<close>

definition session_established :: "service \<Rightarrow> service" where
  "session_established s =
     (if sessionPromise s = Some Pending
      then s\<lparr>sessionPromise := Some Fulfilled,
             sent := sent s @ concat (map frame_inputs (waiting s)),
             waiting := []\<rparr>
      else s)"

definition service_init :: service where
  "service_init = \<lparr>sessionPromise = None, waiting = [], sent = [], canvas_size = (300, 150)\<rparr>"

section \<open>Interpolation coefficients\<close>

text \<open>
  The third argument of \<^verbatim>\<open>lerp\<close> on a frame, \<^verbatim>\<open>delta * speed\<close>: for the foliage and
  for a decor group of the given weight.
\<close>

definition foliage_coefficient :: "frame \<Rightarrow> real" where
  "foliage_coefficient f = frame_delta f * FoliageSystem_speed (hand_state (frame_hand f))"

definition decor_coefficient :: "real \<Rightarrow> frame \<Rightarrow> real" where
  "decor_coefficient weight f =
     frame_delta f * InstancedDecor_speed weight (hand_state (frame_hand f))"

section \<open>The specification's interpolation\<close>

text \<open>
  The words of the specification: the linear interpolation from \<open>a\<close> to \<open>b\<close> with
  coefficient \<open>c\<close>, and the cubic ease-out of \<open>t\<close>.
\<close>

fun spec_linear_interpolation :: "vec3 \<Rightarrow> vec3 \<Rightarrow> real \<Rightarrow> vec3" where
  "spec_linear_interpolation (ax, ay, az) (bx, by, bz) c =
     ((1 - c) * ax + c * bx, (1 - c) * ay + c * by, (1 - c) * az + c * bz)"

definition spec_cubic_ease_out :: "real \<Rightarrow> real" where
  "spec_cubic_ease_out t = 1 - (1 - t) ^ 3"

section \<open>Concrete inputs\<close>

text \<open>A hand at the centre of the image, and a frame on which the component's ref is set.\<close>

definition hand :: "HandState \<Rightarrow> HandData" where
  "hand s = \<lparr>hand_state = s, hand_x = Num 0, hand_y = Num 0\<rparr>"

definition frame_of :: "HandState \<Rightarrow> real \<Rightarrow> frame" where
  "frame_of s dt = \<lparr>frame_ref = True, frame_hand = hand s, frame_elapsed = 0, frame_delta = dt\<rparr>"

section \<open>Properties of the interpolation\<close>

lemma lerp_unit: "0 \<le> k \<Longrightarrow> k \<le> 1 \<Longrightarrow> 0 \<le> p \<Longrightarrow> p \<le> 1 \<Longrightarrow> 0 \<le> b \<Longrightarrow> b \<le> 1
  \<Longrightarrow> 0 \<le> lerp p b k \<and> lerp p b k \<le> 1"
proof -
  assume h: "0 \<le> k" "k \<le> 1" "0 \<le> p" "p \<le> 1" "0 \<le> b" "b \<le> 1"
  have a: "0 \<le> (1 - k) * p" using h by simp
  have b: "0 \<le> k * b" using h by simp
  have "(1 - k) * p \<le> (1 - k) * 1" using h by (intro mult_left_mono) auto
  then have c: "(1 - k) * p \<le> 1 - k" by simp
  have "k * b \<le> k * 1" using h by (intro mult_left_mono) auto
  then have d: "k * b \<le> k" by simp
  show ?thesis unfolding lerp_def using a b c d by linarith
qed

lemma lerp_one: "lerp p 1 k = 1 - (1 - k) * (1 - p)"
  by (simp add: lerp_def algebra_simps)

lemma lerp_zero: "lerp p 0 k = (1 - k) * p"
  by (simp add: lerp_def)


lemma foliage_progress_step:
  "currentProgress (FoliageSystem_useFrame r h e d st) =
     (if r then lerp (currentProgress st) (FoliageSystem_target (hand_state h))
                  (d * FoliageSystem_speed (hand_state h))
      else currentProgress st)"
  by (simp add: FoliageSystem_useFrame_def Let_def)



lemma foliage_step_coefficient:
  "currentProgress (FoliageSystem_useFrame (frame_ref f) (frame_hand f) (frame_elapsed f) (frame_delta f) st) =
     (if frame_ref f then lerp (currentProgress st) (FoliageSystem_target (hand_state (frame_hand f)))
                  (foliage_coefficient f)
      else currentProgress st)"
  by (simp add: foliage_progress_step foliage_coefficient_def)

lemma decor_step_coefficient:
  assumes "weight \<noteq> 0"
  shows "\<exists>st'. InstancedDecor_useFrame weight data (frame_ref f) (frame_hand f) (frame_elapsed f)
               (frame_delta f) st = Some st' \<and>
     decor_progress st' =
       (if frame_ref f
        then lerp (decor_progress st) (InstancedDecor_targetP (hand_state (frame_hand f)))
               (decor_coefficient weight f)
        else decor_progress st)"
  using assms
  by (simp add: InstancedDecor_useFrame_def decor_coefficient_def Let_def split: prod.splits)

section \<open>Progress and the unit interval\<close>

lemma foliage_frames_unit:
  assumes "0 \<le> currentProgress st \<and> currentProgress st \<le> 1"
    and "\<forall>f\<in>set fs. 0 \<le> foliage_coefficient f \<and> foliage_coefficient f \<le> 1"
  shows "0 \<le> currentProgress (FoliageSystem_frames fs st) \<and>
         currentProgress (FoliageSystem_frames fs st) \<le> 1"
  using assms
proof (induction fs arbitrary: st)
  case Nil
  then show ?case by simp
next
  case (Cons f fs)
  let ?st = "FoliageSystem_useFrame (frame_ref f) (frame_hand f) (frame_elapsed f) (frame_delta f) st"
  have t: "0 \<le> FoliageSystem_target (hand_state (frame_hand f)) \<and>
           FoliageSystem_target (hand_state (frame_hand f)) \<le> 1"
    by (simp add: FoliageSystem_target_def)
  have "0 \<le> currentProgress ?st \<and> currentProgress ?st \<le> 1"
    using Cons.prems t by (simp add: foliage_step_coefficient lerp_unit)
  moreover have "\<forall>f\<in>set fs. 0 \<le> foliage_coefficient f \<and> foliage_coefficient f \<le> 1"
    using Cons.prems by simp
  ultimately show ?case using Cons.IH [of ?st] by simp
qed

lemma decor_frames_unit:
  assumes "weight \<noteq> 0" "0 \<le> decor_progress st \<and> decor_progress st \<le> 1"
    and "\<forall>f\<in>set fs. 0 \<le> decor_coefficient weight f \<and> decor_coefficient weight f \<le> 1"
  shows "\<exists>st'. InstancedDecor_frames weight data fs st = Some st' \<and>
           0 \<le> decor_progress st' \<and> decor_progress st' \<le> 1"
  using assms(2,3)
proof (induction fs arbitrary: st)
  case Nil
  then show ?case by simp
next
  case (Cons f fs)
  obtain st1 where s1: "InstancedDecor_useFrame weight data (frame_ref f) (frame_hand f)
       (frame_elapsed f) (frame_delta f) st = Some st1"
    and p1: "decor_progress st1 =
       (if frame_ref f
        then lerp (decor_progress st) (InstancedDecor_targetP (hand_state (frame_hand f)))
               (decor_coefficient weight f)
        else decor_progress st)"
    using decor_step_coefficient [OF assms(1)] by blast
  have t: "0 \<le> InstancedDecor_targetP (hand_state (frame_hand f)) \<and>
           InstancedDecor_targetP (hand_state (frame_hand f)) \<le> 1"
    by (simp add: InstancedDecor_targetP_def)
  have "0 \<le> decor_progress st1 \<and> decor_progress st1 \<le> 1"
    using Cons.prems t p1 by (simp add: lerp_unit)
  then obtain st' where "InstancedDecor_frames weight data fs st1 = Some st'"
      "0 \<le> decor_progress st' \<and> decor_progress st' \<le> 1"
    using Cons.IH [of st1] Cons.prems(2) by auto
  then show ?case using s1 by simp
qed

text \<open>
  C1 (as amended). Over every sequence of frames on each of which the interpolation
  coefficient \<open>delta * speed\<close> lies in \<open>[0, 1]\<close>, a progress value that starts in \<open>[0, 1]\<close>
  stays in \<open>[0, 1]\<close>, whatever the hand states of the frames are: for the foliage, and
  for a decor group of any weight other than zero (which then completes every frame).
\<close>

theorem progress_within_unit_interval:
  "(0 \<le> currentProgress st \<and> currentProgress st \<le> 1 \<and>
    (\<forall>f\<in>set fs. 0 \<le> foliage_coefficient f \<and> foliage_coefficient f \<le> 1)
    \<longrightarrow> 0 \<le> currentProgress (FoliageSystem_frames fs st) \<and>
        currentProgress (FoliageSystem_frames fs st) \<le> 1) \<and>
   (weight \<noteq> 0 \<and> 0 \<le> decor_progress dst \<and> decor_progress dst \<le> 1 \<and>
    (\<forall>f\<in>set fs. 0 \<le> decor_coefficient weight f \<and> decor_coefficient weight f \<le> 1)
    \<longrightarrow> (\<exists>dst'. InstancedDecor_frames weight data fs dst = Some dst' \<and>
          0 \<le> decor_progress dst' \<and> decor_progress dst' \<le> 1))"
  using foliage_frames_unit [of st fs] decor_frames_unit [of weight dst fs data] by blast

text \<open>The theorem at three frames of changing state, for the foliage and the gifts.\<close>

theorem progress_within_unit_interval_witness:
  "(0 \<le> currentProgress foliage_init \<and> currentProgress foliage_init \<le> 1 \<and>
    list_all (\<lambda>f. 0 \<le> foliage_coefficient f \<and> foliage_coefficient f \<le> 1)
      [frame_of CLOSED (1/4), frame_of OPEN (1/4), frame_of UNKNOWN (3/5)]) \<and>
   (0 \<le> currentProgress
          (FoliageSystem_frames [frame_of CLOSED (1/4), frame_of OPEN (1/4), frame_of UNKNOWN (3/5)]
             foliage_init) \<and>
    currentProgress
      (FoliageSystem_frames [frame_of CLOSED (1/4), frame_of OPEN (1/4), frame_of UNKNOWN (3/5)]
         foliage_init) \<le> 1) \<and>
   ((9/5 :: real) \<noteq> 0 \<and> 0 \<le> decor_progress decor_init \<and> decor_progress decor_init \<le> 1 \<and>
    list_all (\<lambda>f. 0 \<le> decor_coefficient (9/5) f \<and> decor_coefficient (9/5) f \<le> 1)
      [frame_of CLOSED (1/4), frame_of OPEN (1/4), frame_of UNKNOWN (3/5)]) \<and>
   (\<exists>dst'. InstancedDecor_frames (9/5) []
             [frame_of CLOSED (1/4), frame_of OPEN (1/4), frame_of UNKNOWN (3/5)] decor_init
             = Some dst' \<and>
          0 \<le> decor_progress dst' \<and> decor_progress dst' \<le> 1)"
proof -
  let ?fs = "[frame_of CLOSED (1/4), frame_of OPEN (1/4), frame_of UNKNOWN (3/5)]"
  have h1: "0 \<le> currentProgress foliage_init \<and> currentProgress foliage_init \<le> 1 \<and>
    (\<forall>f\<in>set ?fs. 0 \<le> foliage_coefficient f \<and> foliage_coefficient f \<le> 1)"
    by (simp add: foliage_init_def frame_of_def hand_def foliage_coefficient_def
        FoliageSystem_speed_def)
  have h2: "(9/5 :: real) \<noteq> 0 \<and> 0 \<le> decor_progress decor_init \<and> decor_progress decor_init \<le> 1 \<and>
    (\<forall>f\<in>set ?fs. 0 \<le> decor_coefficient (9/5) f \<and> decor_coefficient (9/5) f \<le> 1)"
    by (simp add: decor_init_def frame_of_def hand_def decor_coefficient_def
        InstancedDecor_speed_def)
  show ?thesis
    using progress_within_unit_interval [of foliage_init ?fs "9/5" decor_init "[]"] h1 h2
    unfolding list_all_iff by blast
qed

text \<open>
  C1 as stated fails: \<open>lerp\<close> does not clamp its coefficient. One frame of one second
  with an open hand takes the foliage from 1 to \<open>-3/2\<close> and the fairy lights (weight 0.8)
  from 1 to \<open>-11/4\<close>.
\<close>

theorem progress_leaves_unit_interval:
  "currentProgress (FoliageSystem_frames [frame_of OPEN 1] foliage_init) = - (3/2) \<and>
   \<not> 0 \<le> currentProgress (FoliageSystem_frames [frame_of OPEN 1] foliage_init) \<and>
   InstancedDecor_frames (4/5) [] [frame_of OPEN 1] decor_init
     = Some \<lparr>decor_progress = - (11/4), dummy = object3d_init, instanceMatrix = []\<rparr>"
  by (simp add: foliage_init_def decor_init_def frame_of_def hand_def FoliageSystem_useFrame_def
      FoliageSystem_speed_def FoliageSystem_target_def lerp_def Let_def
      InstancedDecor_useFrame_def InstancedDecor_speed_def InstancedDecor_targetP_def)

section \<open>A held signal\<close>













section \<open>Weight\<close>









section \<open>Target progress\<close>

text \<open>
  C6. The target progress is 1 when the state of the current signal is CLOSED or UNKNOWN
  and 0 when it is OPEN, in the foliage and in every decor group; on a frame on which the
  component's ref is set, the foliage stores this target and both components move the
  progress towards it by \<open>lerp\<close>.
\<close>

theorem target_progress_of_state:
  "FoliageSystem_target CLOSED = 1 \<and> FoliageSystem_target UNKNOWN = 1 \<and>
   FoliageSystem_target OPEN = 0 \<and>
   InstancedDecor_targetP CLOSED = 1 \<and> InstancedDecor_targetP UNKNOWN = 1 \<and>
   InstancedDecor_targetP OPEN = 0 \<and>
   targetProgress (FoliageSystem_useFrame True h e d st) = FoliageSystem_target (hand_state h) \<and>
   currentProgress (FoliageSystem_useFrame True h e d st)
     = lerp (currentProgress st) (FoliageSystem_target (hand_state h))
         (d * FoliageSystem_speed (hand_state h)) \<and>
   (weight \<noteq> 0 \<longrightarrow>
     (\<exists>dst'. InstancedDecor_useFrame weight data True h e d dst = Some dst' \<and>
        decor_progress dst'
          = lerp (decor_progress dst) (InstancedDecor_targetP (hand_state h))
              (d * InstancedDecor_speed weight (hand_state h))))"
  by (simp add: FoliageSystem_target_def InstancedDecor_targetP_def FoliageSystem_useFrame_def
      InstancedDecor_useFrame_def Let_def split: prod.splits)

text \<open>The theorem under an open and an unrecognised hand, and for the gifts (weight 1.8).\<close>

theorem target_progress_of_state_witness:
  "(9/5 :: real) \<noteq> 0 \<and>
   targetProgress (FoliageSystem_useFrame True (hand OPEN) 0 (1/10) foliage_init) = 0 \<and>
   targetProgress (FoliageSystem_useFrame True (hand UNKNOWN) 0 (1/10) foliage_init) = 1 \<and>
   (\<exists>dst'. InstancedDecor_useFrame (9/5) [] True (hand OPEN) 0 (1/10) decor_init = Some dst' \<and>
        decor_progress dst'
          = lerp (decor_progress decor_init) 0 (1/10 * InstancedDecor_speed (9/5) OPEN))"
proof -
  have w: "(9/5 :: real) \<noteq> 0" by simp
  have s: "hand_state (hand OPEN) = OPEN" "hand_state (hand UNKNOWN) = UNKNOWN"
    by (simp_all add: hand_def)
  note t1 = target_progress_of_state [of "hand OPEN" 0 "1/10" foliage_init "9/5" "[]" decor_init]
  note t2 = target_progress_of_state [of "hand UNKNOWN" 0 "1/10" foliage_init "9/5" "[]" decor_init]
  show ?thesis using w t1 t2 unfolding s by simp
qed

section \<open>Blended position\<close>

lemma lerpVectors_spec: "lerpVectors a b c = spec_linear_interpolation a b c"
  by (cases a; cases b) (simp add: algebra_simps)

lemma mix_spec: "mix a b c = spec_linear_interpolation a b c"
  by (cases a; cases b) (simp add: algebra_simps)

lemma decor_forEach_positions:
  "length (snd (decor_forEach t e its d)) = length its \<and>
   (\<forall>i<length its. position (snd (decor_forEach t e its d) ! i)
        = lerpVectors (chaos (its ! i)) (target (its ! i)) (decor_ease t))"
proof (induction its arbitrary: d)
  case Nil
  then show ?case by simp
next
  case (Cons it its)
  show ?case
    using Cons.IH [of "decor_item t e it d"]
    by (auto simp: Let_def decor_item_def nth_Cons split: prod.splits nat.splits)
qed

text \<open>
  Where the blend is the interpolation. For a progress \<open>t \<le> 1\<close> in the uniform
  \<^verbatim>\<open>uProgress\<close>, which a frame sets to the current progress, the position that the vertex
  shader blends (its line 39, before the wind sway is added) is the linear interpolation
  from the chaos position to the target position with the coefficient \<open>1 - (1 - t)\<^sup>3\<close>. On
  a frame of a decor group (ref set, weight not zero) the position stored for every item
  is that interpolation, at the progress the frame has just computed, whatever that
  progress is.
\<close>

lemma blended_position_cubic_ease_out:
  "(t \<le> 1 \<longrightarrow>
     foliage_blend t c g = Some (spec_linear_interpolation c g (spec_cubic_ease_out t))) \<and>
   uProgress (FoliageSystem_useFrame True h e d st)
     = currentProgress (FoliageSystem_useFrame True h e d st) \<and>
   (weight \<noteq> 0 \<longrightarrow>
     (\<exists>dst'. InstancedDecor_useFrame weight data True h e d dst = Some dst' \<and>
        length (instanceMatrix dst') = length data \<and>
        (\<forall>i<length data.
           position (instanceMatrix dst' ! i)
             = spec_linear_interpolation (chaos (data ! i)) (target (data ! i))
                 (spec_cubic_ease_out (decor_progress dst')))))"
proof -
  have a: "foliage_blend t c g = Some (spec_linear_interpolation c g (spec_cubic_ease_out t))"
    if "t \<le> 1"
    using that
    by (simp add: foliage_blend_def foliage_ease_def glsl_pow_def mix_spec spec_cubic_ease_out_def)
  have b: "uProgress (FoliageSystem_useFrame True h e d st)
     = currentProgress (FoliageSystem_useFrame True h e d st)"
    by (simp add: FoliageSystem_useFrame_def Let_def)
  have e: "decor_ease u = spec_cubic_ease_out u" for u
    by (simp add: decor_ease_def spec_cubic_ease_out_def pow_def)
  have c: "\<exists>dst'. InstancedDecor_useFrame weight data True h e d dst = Some dst' \<and>
        length (instanceMatrix dst') = length data \<and>
        (\<forall>i<length data.
           position (instanceMatrix dst' ! i)
             = spec_linear_interpolation (chaos (data ! i)) (target (data ! i))
                 (spec_cubic_ease_out (decor_progress dst')))" if "weight \<noteq> 0"
  proof -
    let ?t = "lerp (decor_progress dst) (InstancedDecor_targetP (hand_state h))
                (d * InstancedDecor_speed weight (hand_state h))"
    obtain d' ms where f: "decor_forEach ?t e data (dummy dst) = (d', ms)"
      by (cases "decor_forEach ?t e data (dummy dst)")
    have "InstancedDecor_useFrame weight data True h e d dst
            = Some \<lparr>decor_progress = ?t, dummy = d', instanceMatrix = ms\<rparr>"
      using that f by (simp add: InstancedDecor_useFrame_def Let_def)
    moreover have "length ms = length data \<and>
        (\<forall>i<length data. position (ms ! i)
             = spec_linear_interpolation (chaos (data ! i)) (target (data ! i))
                 (spec_cubic_ease_out ?t))"
      using decor_forEach_positions [of ?t e data "dummy dst"] f
      by (simp add: lerpVectors_spec e)
    ultimately show ?thesis by simp
  qed
  show ?thesis using a b c by blast
qed

text \<open>
  The lemma at a half-formed foliage, and at a group of one item on a frame of 0.1 s
  under an open hand.
\<close>

lemma blended_position_witness:
  "(1/2 :: real) \<le> 1 \<and>
   foliage_blend (1/2) (3, 0, 4) (0, 6, 0)
     = Some (spec_linear_interpolation (3, 0, 4) (0, 6, 0) (spec_cubic_ease_out (1/2))) \<and>
   (9/5 :: real) \<noteq> 0 \<and>
   (\<exists>dst'. InstancedDecor_useFrame (9/5)
             [\<lparr>target = (0, 6, 0), chaos = (3, 0, 4), item_scale = 1, item_rotation = (0, 0, 0),
               chaosRotation = (1, 2, 0)\<rparr>] True (hand OPEN) 0 (1/10) decor_init = Some dst' \<and>
        length (instanceMatrix dst') = length
             [\<lparr>target = (0, 6, 0), chaos = (3, 0, 4), item_scale = 1, item_rotation = (0, 0, 0),
               chaosRotation = (1, 2, 0)\<rparr>] \<and>
        (\<forall>i<length [\<lparr>target = (0, 6, 0), chaos = (3, 0, 4), item_scale = 1,
                       item_rotation = (0, 0, 0), chaosRotation = (1, 2, 0)\<rparr>].
           position (instanceMatrix dst' ! i)
             = spec_linear_interpolation
                 (chaos ([\<lparr>target = (0, 6, 0), chaos = (3, 0, 4), item_scale = 1,
                           item_rotation = (0, 0, 0), chaosRotation = (1, 2, 0)\<rparr>] ! i))
                 (target ([\<lparr>target = (0, 6, 0), chaos = (3, 0, 4), item_scale = 1,
                            item_rotation = (0, 0, 0), chaosRotation = (1, 2, 0)\<rparr>] ! i))
                 (spec_cubic_ease_out (decor_progress dst'))))"
proof -
  have w: "(9/5 :: real) \<noteq> 0" and t: "(1/2 :: real) \<le> 1" by simp_all
  show ?thesis
    using w t blended_position_cubic_ease_out [of "1/2" "(3, 0, 4)" "(0, 6, 0)" "hand OPEN" 0
        "1/10" foliage_init "9/5"
        "[\<lparr>target = (0, 6, 0), chaos = (3, 0, 4), item_scale = 1, item_rotation = (0, 0, 0),
               chaosRotation = (1, 2, 0)\<rparr>]" decor_init]
    by blast
qed

text \<open>
  C7: the blended position is the linear interpolation from the chaos position to the
  target position with the cubic ease-out of the progress as coefficient. The vertex
  shader misses it once the progress exceeds 1, where the decor callback, with the same
  expression over \<^verbatim>\<open>Math.pow\<close>, does not. An open hand for 0.4 s and then a closed hand for
  a frame of 2 s leave \<^verbatim>\<open>uProgress\<close> at 2, where the shader calls \<^verbatim>\<open>pow\<close> with the base
  \<open>-1\<close>: GLSL defines no result, hence no blended position, and not the interpolation.
\<close>

theorem blended_position_undefined:
  "uProgress (FoliageSystem_frames [frame_of OPEN (2/5), frame_of CLOSED 2] foliage_init) = 2 \<and>
   foliage_blend 2 (3, 0, 4) (0, 6, 0) = None \<and>
   foliage_blend 2 (3, 0, 4) (0, 6, 0)
     \<noteq> Some (spec_linear_interpolation (3, 0, 4) (0, 6, 0) (spec_cubic_ease_out 2))"
  by (simp add: foliage_init_def frame_of_def hand_def FoliageSystem_useFrame_def
      FoliageSystem_speed_def FoliageSystem_target_def lerp_def Let_def
      foliage_blend_def foliage_ease_def glsl_pow_def)

section \<open>Camera\<close>

lemma jlerp_Num: "jlerp (Num a) (Num b) (Num t) = Num (lerp a b t)"
  by (simp add: jlerp_def lerp_def)

text \<open>
  C8 (as amended). For a signal and a camera position that are numbers, the desired
  offset is \<open>0 - 5 x\<close> and \<open>4 + 3 y\<close>, and a frame moves the camera's x and y towards it by
  \<open>lerp\<close> with the fixed coefficient 0.05, leaving z as it is. The result does not depend
  on the elapsed time of the frame, and no weight enters it.
\<close>

theorem camera_follows_hand:
  "(hand_x h = Num a \<and> hand_y h = Num b \<and> cam_x cam = Num cx \<and> cam_y cam = Num cy
    \<longrightarrow> camera_targetX h = Num (0 - 5 * a) \<and> camera_targetY h = Num (4 + 3 * b) \<and>
        CameraController_useFrame h delta cam
          = cam\<lparr>cam_x := Num (lerp cx (0 - 5 * a) 0.05), cam_y := Num (lerp cy (4 + 3 * b) 0.05)\<rparr>) \<and>
   CameraController_useFrame h delta cam = CameraController_useFrame h delta' cam"
  by (simp add: CameraController_useFrame_def camera_targetX_def camera_targetY_def jlerp_Num
      mult.commute)

text \<open>The theorem at a hand in the lower right corner, from the camera's initial position.\<close>

theorem camera_follows_hand_witness:
  "hand_x \<lparr>hand_state = OPEN, hand_x = Num 1, hand_y = Num (-1)\<rparr> = Num 1 \<and>
   hand_y \<lparr>hand_state = OPEN, hand_x = Num 1, hand_y = Num (-1)\<rparr> = Num (-1) \<and>
   cam_x camera_init = Num 0 \<and> cam_y camera_init = Num 4 \<and>
   CameraController_useFrame \<lparr>hand_state = OPEN, hand_x = Num 1, hand_y = Num (-1)\<rparr> (1/60)
       camera_init
     = \<lparr>cam_x = Num (- (1/4)), cam_y = Num (77/20), cam_z = Num 20\<rparr>"
proof -
  let ?h = "\<lparr>hand_state = OPEN, hand_x = Num 1, hand_y = Num (-1)\<rparr>"
  have h: "hand_x ?h = Num 1 \<and> hand_y ?h = Num (-1) \<and>
           cam_x camera_init = Num 0 \<and> cam_y camera_init = Num 4"
    by (simp add: camera_init_def)
  have "CameraController_useFrame ?h (1/60) camera_init
          = camera_init\<lparr>cam_x := Num (lerp 0 (0 - 5 * 1) 0.05),
                        cam_y := Num (lerp 4 (4 + 3 * (-1)) 0.05)\<rparr>"
    using camera_follows_hand [of ?h 1 "-1" camera_init 0 4 "1/60" 0] h by blast
  then show ?thesis using h by (simp add: camera_init_def lerp_def)
qed

text \<open>
  C8 as stated fails: the camera's interpolation is not scaled by the frame time. A frame
  of 10 ms and a frame of 1 s move the camera to the same place, whereas they move the
  progress of the foliage to \<open>39/40\<close> and to \<open>-3/2\<close>.
\<close>

theorem camera_not_frame_time_scaled:
  "cam_x (CameraController_useFrame \<lparr>hand_state = OPEN, hand_x = Num 1, hand_y = Num 1\<rparr> (1/100)
            camera_init) = Num (- (1/4)) \<and>
   cam_x (CameraController_useFrame \<lparr>hand_state = OPEN, hand_x = Num 1, hand_y = Num 1\<rparr> 1
            camera_init) = Num (- (1/4)) \<and>
   currentProgress (FoliageSystem_useFrame True \<lparr>hand_state = OPEN, hand_x = Num 1, hand_y = Num 1\<rparr>
                      0 (1/100) foliage_init) = 39/40 \<and>
   currentProgress (FoliageSystem_useFrame True \<lparr>hand_state = OPEN, hand_x = Num 1, hand_y = Num 1\<rparr>
                      0 1 foliage_init) = - (3/2)"
  by (simp add: CameraController_useFrame_def camera_targetX_def camera_init_def jlerp_def
      FoliageSystem_useFrame_def FoliageSystem_target_def FoliageSystem_speed_def foliage_init_def
      lerp_def Let_def)


section \<open>The parser\<close>

text \<open>Facts for evaluating the parser on a given text.\<close>

lemmas json_eval = JSON_parse_def str_def lex_number_def lex_fraction_def lex_exponent_def
  lex_literal_def is_digit_def digits_value_def scale10_def Let_def escape_char_def hex_digit_def

lemmas tryParseJSON_eval = tryParseJSON_def LineTerminator_def json_eval get_property_def
  clamp_unit_def Math_min_def Math_max_def

lemma upto_last_brace_none: "125 \<notin> set ys \<Longrightarrow> upto_last_brace ys = None"
  by (induction ys) auto

lemma upto_last_brace_found:
  "125 \<notin> set ys \<Longrightarrow> upto_last_brace (xs @ 125 # ys) = Some (xs @ [125])"
  by (induction xs) (auto simp: upto_last_brace_none)

lemma regex_match_skip: "123 \<notin> set pre \<Longrightarrow> regex_match (pre @ rest) = regex_match rest"
  by (induction pre) auto

lemma LineTerminator_brace: "\<not> LineTerminator 125"
  by (simp add: LineTerminator_def)

lemma regex_match_object:
  assumes "123 \<notin> set pre"
    and "\<forall>c\<in>set body. \<not> LineTerminator c"
    and "125 \<notin> set (takeWhile (\<lambda>d. \<not> LineTerminator d) post)"
  shows "regex_match (pre @ (123 # body @ [125]) @ post) = Some (123 # body @ [125])"
proof -
  have "takeWhile (\<lambda>d. \<not> LineTerminator d) (body @ 125 # post)
          = body @ 125 # takeWhile (\<lambda>d. \<not> LineTerminator d) post"
    using assms(2) by (simp add: takeWhile_append2 LineTerminator_brace)
  then have "upto_last_brace (takeWhile (\<lambda>d. \<not> LineTerminator d) (body @ 125 # post))
          = Some (body @ [125])"
    using upto_last_brace_found [OF assms(3), of body] by simp
  then have "regex_match ((123 # body @ [125]) @ post) = Some (123 # body @ [125])"
    by simp
  then show ?thesis
    using regex_match_skip [OF assms(1)] by simp
qed

lemma clamp_unit_Num: "clamp_unit (Num a) = Num (max (- 1) (min 1 a))"
  by (simp add: clamp_unit_def Math_min_def Math_max_def max_def min_def)

lemma tryParseJSON_fields:
  assumes "regex_match text = Some m"
    and "JSON_parse m = Some json"
    and "get_property json (str ''state'') = Some (JString s)" "s \<noteq> []"
    and "get_property json (str ''x'') = Some (JNumber a)"
    and "get_property json (str ''y'') = Some (JNumber b)"
  shows "tryParseJSON True text =
           [\<lparr>hand_state = (if s = str ''OPEN'' then OPEN else CLOSED),
             hand_x = Num (max (- 1) (min 1 a)), hand_y = Num (max (- 1) (min 1 b))\<rparr>]"
proof -
  have "json \<noteq> JNull" using assms(3) by (auto simp: get_property_def)
  then show ?thesis
    using assms by (cases json) (simp_all add: tryParseJSON_def clamp_unit_Num)
qed

lemma tryParseJSON_result:
  "tryParseJSON cb text = [] \<or>
   (\<exists>m json nx ny.
      regex_match text = Some m \<and> JSON_parse m = Some json \<and> cb \<and>
      truthy (get_property json (str ''state'')) \<and>
      typeof_number (get_property json (str ''x'')) \<and>
      ToNumber (get_property json (str ''x'')) = Some nx \<and>
      ToNumber (get_property json (str ''y'')) = Some ny \<and>
      tryParseJSON cb text =
        [\<lparr>hand_state = (if get_property json (str ''state'') = Some (JString (str ''OPEN''))
                         then OPEN else CLOSED),
          hand_x = clamp_unit nx, hand_y = clamp_unit ny\<rparr>])"
proof (cases "regex_match text")
  case None
  then show ?thesis by (simp add: tryParseJSON_def)
next
  case (Some m)
  note m = this
  show ?thesis
  proof (cases "JSON_parse m")
    case None
    then show ?thesis using m by (simp add: tryParseJSON_def)
  next
    case (Some json)
    note j = this
    let ?ok = "truthy (get_property json (str ''state'')) \<and>
               typeof_number (get_property json (str ''x'')) \<and> cb"
    show ?thesis
    proof (cases ?ok)
      case False
      then have "tryParseJSON cb text = []"
        using m j by (cases json) (auto simp: tryParseJSON_def)
      then show ?thesis by simp
    next
      case True
      then have nn: "json \<noteq> JNull" by (auto simp: get_property_def)
      show ?thesis
      proof (cases "ToNumber (get_property json (str ''x''))")
        case None
        then have "tryParseJSON cb text = []"
          using m j True by (cases json) (auto simp: tryParseJSON_def)
        then show ?thesis by simp
      next
        case (Some nx)
        note x = this
        show ?thesis
        proof (cases "ToNumber (get_property json (str ''y''))")
          case None
          then have "tryParseJSON cb text = []"
            using m j True x by (cases json) (auto simp: tryParseJSON_def)
          then show ?thesis by simp
        next
          case (Some ny)
          have "tryParseJSON cb text =
            [\<lparr>hand_state = (if get_property json (str ''state'') = Some (JString (str ''OPEN''))
                         then OPEN else CLOSED),
              hand_x = clamp_unit nx, hand_y = clamp_unit ny\<rparr>]"
            using m j True x Some nn by (cases json) (simp_all add: tryParseJSON_def)
          then show ?thesis using m j True x Some by blast
        qed
      qed
    qed
  qed
qed

lemma tryParseJSON_state:
  "sig \<in> set (tryParseJSON cb text) \<Longrightarrow> hand_state sig = OPEN \<or> hand_state sig = CLOSED"
  using tryParseJSON_result [of cb "text"] by (auto split: if_splits)

lemma tryParseJSON_closed:
  assumes "regex_match text = Some m" "JSON_parse m = Some json"
    and "get_property json (str ''state'') \<noteq> Some (JString (str ''OPEN''))"
    and "sig \<in> set (tryParseJSON cb text)"
  shows "hand_state sig = CLOSED"
  using tryParseJSON_result [of cb "text"] assms by (auto split: if_splits)

lemma handleMessage_state:
  "sig \<in> set (handleMessage cb parts) \<Longrightarrow> hand_state sig = OPEN \<or> hand_state sig = CLOSED"
  by (auto simp: handleMessage_def split: option.splits if_splits dest: tryParseJSON_state)

text \<open>
  C2 (as amended). The fragment holds, on one line, a text that starts with \<^verbatim>\<open>{\<close>, ends
  with \<^verbatim>\<open>}\<close> and parses as JSON, with no \<^verbatim>\<open>{\<close> before it in the fragment and no \<^verbatim>\<open>}\<close> after
  it on its line; its \<^verbatim>\<open>state\<close> is a string that is not empty and its \<^verbatim>\<open>x\<close> and \<^verbatim>\<open>y\<close> are
  numbers. Then the parser, with an observer registered, publishes exactly one signal:
  \<open>x\<close> and \<open>y\<close> clamped to \<open>[-1, 1]\<close>, and the state OPEN for the string \<^verbatim>\<open>OPEN\<close> and CLOSED
  for every other string.
\<close>

theorem parser_publishes_clamped_signal:
  assumes "123 \<notin> set pre"
    and "\<forall>c\<in>set body. \<not> LineTerminator c"
    and "125 \<notin> set (takeWhile (\<lambda>d. \<not> LineTerminator d) post)"
    and "JSON_parse (123 # body @ [125]) = Some json"
    and "get_property json (str ''state'') = Some (JString s)" "s \<noteq> []"
    and "get_property json (str ''x'') = Some (JNumber a)"
    and "get_property json (str ''y'') = Some (JNumber b)"
  shows "tryParseJSON True (pre @ (123 # body @ [125]) @ post) =
           [\<lparr>hand_state = (if s = str ''OPEN'' then OPEN else CLOSED),
             hand_x = Num (max (- 1) (min 1 a)), hand_y = Num (max (- 1) (min 1 b))\<rparr>]"
  using tryParseJSON_fields [OF regex_match_object [OF assms(1-3)] assms(4-8)] .

text \<open>The example of the specification: \<open>x = 2.5\<close> becomes 1 and \<open>y = -3\<close> becomes \<open>-1\<close>.\<close>

theorem parser_publishes_clamped_signal_witness:
  \<open>123 \<notin> set (str ''here is the data '') \<and>
   list_all (\<lambda>c. \<not> LineTerminator c) (str ''"state":"OPEN","x":2.5,"y":-3'') \<and>
   125 \<notin> set (takeWhile (\<lambda>d. \<not> LineTerminator d) []) \<and>
   JSON_parse (str ''{"state":"OPEN","x":2.5,"y":-3}'')
     = Some (JObject [(str ''state'', JString (str ''OPEN'')), (str ''x'', JNumber (5/2)),
                      (str ''y'', JNumber (- 3))]) \<and>
   tryParseJSON True (str ''here is the data {"state":"OPEN","x":2.5,"y":-3}'')
     = [\<lparr>hand_state = OPEN, hand_x = Num 1, hand_y = Num (- 1)\<rparr>]\<close>
proof -
  let ?body = \<open>str ''"state":"OPEN","x":2.5,"y":-3''\<close>
  let ?json = "JObject [(str ''state'', JString (str ''OPEN'')), (str ''x'', JNumber (5/2)),
                        (str ''y'', JNumber (- 3))]"
  have h1: "123 \<notin> set (str ''here is the data '')"
    by (simp add: str_def)
  have l2: "list_all (\<lambda>c. \<not> LineTerminator c) ?body"
    by (simp add: str_def LineTerminator_def)
  have h2: "\<forall>c\<in>set ?body. \<not> LineTerminator c"
    using l2 unfolding list_all_iff .
  have h3: "125 \<notin> set (takeWhile (\<lambda>d. \<not> LineTerminator d) [])"
    by simp
  have o: \<open>str ''{"state":"OPEN","x":2.5,"y":-3}'' = 123 # ?body @ [125]\<close>
    by (simp add: str_def)
  have p: \<open>JSON_parse (str ''{"state":"OPEN","x":2.5,"y":-3}'') = Some ?json\<close>
    by (simp add: json_eval)
  have h4: "JSON_parse (123 # ?body @ [125]) = Some ?json"
    using p unfolding o .
  have h5: "get_property ?json (str ''state'') = Some (JString (str ''OPEN''))"
    and h7: "get_property ?json (str ''x'') = Some (JNumber (5/2))"
    and h8: "get_property ?json (str ''y'') = Some (JNumber (- 3))"
    by (simp_all add: get_property_def str_def)
  have h6: "str ''OPEN'' \<noteq> []"
    by (simp add: str_def)
  have t: \<open>str ''here is the data {"state":"OPEN","x":2.5,"y":-3}''
             = str ''here is the data '' @ (123 # ?body @ [125]) @ []\<close>
    by (simp add: str_def)
  have "tryParseJSON True (str ''here is the data '' @ (123 # ?body @ [125]) @ [])
          = [\<lparr>hand_state = (if str ''OPEN'' = str ''OPEN'' then OPEN else CLOSED),
              hand_x = Num (max (- 1) (min 1 (5/2))), hand_y = Num (max (- 1) (min 1 (- 3)))\<rparr>]"
    by (rule parser_publishes_clamped_signal [OF h1 h2 h3 h4 h5 h6 h7 h8])
  then have c: \<open>tryParseJSON True (str ''here is the data {"state":"OPEN","x":2.5,"y":-3}'')
          = [\<lparr>hand_state = OPEN, hand_x = Num 1, hand_y = Num (- 1)\<rparr>]\<close>
    unfolding t [symmetric] by simp
  show ?thesis
    by (rule conjI [OF h1 conjI [OF l2 conjI [OF h3 conjI [OF p c]]]])
qed

text \<open>
  C2 as stated fails. Of two objects on one line the greedy expression takes the text
  from the first \<^verbatim>\<open>{\<close> to the last \<^verbatim>\<open>}\<close>, which is not JSON: nothing is published. The dot
  does not match a line feed, so an object that is spread over two lines is not found:
  nothing is published. And the state string \<^verbatim>\<open>UNKNOWN\<close> is published as CLOSED, not as
  the member UNKNOWN of the enumeration.
\<close>

theorem parser_publishes_nothing:
  \<open>tryParseJSON True
     (str ''{"state":"OPEN","x":2.5,"y":-3} {"state":"CLOSED","x":0,"y":0}'') = [] \<and>
   tryParseJSON True (str ''{"state":"OPEN",'' @ [10] @ str ''"x":2.5,"y":-3}'') = [] \<and>
   tryParseJSON True (str ''{"state":"UNKNOWN","x":2.5,"y":-3}'')
     = [\<lparr>hand_state = CLOSED, hand_x = Num 1, hand_y = Num (- 1)\<rparr>]\<close>
  by (simp add: tryParseJSON_eval)

text \<open>
  What is discarded: a fragment without a match, with a match that is not JSON, or
  without \<^verbatim>\<open>state\<close> or without \<^verbatim>\<open>x\<close> publishes nothing. (No exception leaves
  \<open>tryParseJSON\<close>: every result is a list of signals.)
\<close>

lemma fragment_discarded:
  "(regex_match text = None \<longrightarrow> tryParseJSON cb text = []) \<and>
   (regex_match text = Some m \<and> JSON_parse m = None \<longrightarrow> tryParseJSON cb text = []) \<and>
   (regex_match text = Some m \<and> JSON_parse m = Some json \<and>
    get_property json (str ''state'') = None \<longrightarrow> tryParseJSON cb text = []) \<and>
   (regex_match text = Some m \<and> JSON_parse m = Some json \<and>
    get_property json (str ''x'') = None \<longrightarrow> tryParseJSON cb text = [])"
proof -
  have a: "tryParseJSON cb text = []" if "regex_match text = None"
    using that by (simp add: tryParseJSON_def)
  have b: "tryParseJSON cb text = []" if "regex_match text = Some m" "JSON_parse m = None"
    using that by (simp add: tryParseJSON_def)
  have c: "tryParseJSON cb text = []"
    if "regex_match text = Some m" "JSON_parse m = Some json"
      "get_property json (str ''state'') = None"
    using tryParseJSON_result [of cb "text"] that by auto
  have d: "tryParseJSON cb text = []"
    if "regex_match text = Some m" "JSON_parse m = Some json"
      "get_property json (str ''x'') = None"
    using tryParseJSON_result [of cb "text"] that by auto
  show ?thesis using a b c d by blast
qed

text \<open>
  What is published without \<^verbatim>\<open>y\<close>: with a truthy \<^verbatim>\<open>state\<close> and a number \<^verbatim>\<open>x\<close>, a fragment
  whose object has no \<^verbatim>\<open>y\<close> is published with NaN for its \<open>y\<close>.
\<close>

lemma fragment_without_y:
  assumes "regex_match text = Some m" "JSON_parse m = Some json"
    and "truthy (get_property json (str ''state''))"
    and "get_property json (str ''x'') = Some (JNumber a)"
    and "get_property json (str ''y'') = None"
  shows "tryParseJSON True text =
           [\<lparr>hand_state = (if get_property json (str ''state'') = Some (JString (str ''OPEN''))
                            then OPEN else CLOSED),
             hand_x = Num (max (- 1) (min 1 a)), hand_y = NaN\<rparr>]"
proof -
  have n: "clamp_unit NaN = NaN"
    by (simp add: clamp_unit_def Math_min_def Math_max_def)
  have "json \<noteq> JNull"
    using assms(4) by (auto simp: get_property_def)
  then show ?thesis
    using assms by (cases json) (simp_all add: tryParseJSON_def clamp_unit_Num n)
qed

text \<open>
  C3, the missing case. Only \<^verbatim>\<open>x\<close> is tested for being a number. A fragment with \<^verbatim>\<open>state\<close>
  and \<^verbatim>\<open>x\<close> but without \<^verbatim>\<open>y\<close> is published, with \<^verbatim>\<open>Math.min(1, undefined)\<close>, which is NaN,
  as its \<open>y\<close>; a frame of the camera then sets the camera's \<open>y\<close> to NaN.
\<close>

theorem missing_y_is_published:
  \<open>tryParseJSON True (str ''{"state":"OPEN","x":0}'')
     = [\<lparr>hand_state = OPEN, hand_x = Num 0, hand_y = NaN\<rparr>] \<and>
   cam_y (CameraController_useFrame \<lparr>hand_state = OPEN, hand_x = Num 0, hand_y = NaN\<rparr> (1/60)
            camera_init) = NaN\<close>
  by (simp add: tryParseJSON_eval CameraController_useFrame_def camera_targetY_def jlerp_def
      camera_init_def)

text \<open>
  C10. Every signal that \<open>tryParseJSON\<close> publishes, and so every signal that
  \<open>handleMessage\<close> publishes for a message, has the state OPEN or CLOSED, never UNKNOWN;
  and when the parsed \<^verbatim>\<open>state\<close> is anything but the string \<^verbatim>\<open>OPEN\<close>, a published signal has
  the state CLOSED.
\<close>

theorem published_state_never_unknown:
  "(\<forall>sig\<in>set (tryParseJSON cb text). hand_state sig = OPEN \<or> hand_state sig = CLOSED) \<and>
   (\<forall>sig\<in>set (handleMessage cb parts). hand_state sig = OPEN \<or> hand_state sig = CLOSED) \<and>
   (regex_match text = Some m \<and> JSON_parse m = Some json \<and>
    get_property json (str ''state'') \<noteq> Some (JString (str ''OPEN''))
    \<longrightarrow> (\<forall>sig\<in>set (tryParseJSON cb text). hand_state sig = CLOSED))"
  using tryParseJSON_state [of _ cb "text"] handleMessage_state [of _ cb parts]
    tryParseJSON_closed [of "text" m json _ cb]
  by blast

text \<open>The theorem at the state string \<^verbatim>\<open>UNKNOWN\<close>, and at a message of two parts.\<close>

theorem published_state_never_unknown_witness:
  \<open>regex_match (str ''{"state":"UNKNOWN","x":0,"y":0}'')
     = Some (str ''{"state":"UNKNOWN","x":0,"y":0}'') \<and>
   JSON_parse (str ''{"state":"UNKNOWN","x":0,"y":0}'')
     = Some (JObject [(str ''state'', JString (str ''UNKNOWN'')), (str ''x'', JNumber 0),
                      (str ''y'', JNumber 0)]) \<and>
   get_property (JObject [(str ''state'', JString (str ''UNKNOWN'')), (str ''x'', JNumber 0),
                          (str ''y'', JNumber 0)]) (str ''state'')
     \<noteq> Some (JString (str ''OPEN'')) \<and>
   tryParseJSON True (str ''{"state":"UNKNOWN","x":0,"y":0}'') \<noteq> [] \<and>
   list_all (\<lambda>sig. hand_state sig = CLOSED)
     (tryParseJSON True (str ''{"state":"UNKNOWN","x":0,"y":0}'')) \<and>
   list_all (\<lambda>sig. hand_state sig = OPEN \<or> hand_state sig = CLOSED)
     (handleMessage True (Some [Some (str ''{"state":"UNKNOWN","x":0,"y":0}''),
                                Some (str ''{"state":"OPEN","x":0,"y":0}'')]))\<close>
proof -
  let ?t = \<open>str ''{"state":"UNKNOWN","x":0,"y":0}''\<close>
  let ?j = "JObject [(str ''state'', JString (str ''UNKNOWN'')), (str ''x'', JNumber 0),
                     (str ''y'', JNumber 0)]"
  let ?ps = \<open>Some [Some (str ''{"state":"UNKNOWN","x":0,"y":0}''),
                   Some (str ''{"state":"OPEN","x":0,"y":0}'')]\<close>
  have h1: "regex_match ?t = Some ?t"
    by (simp add: str_def LineTerminator_def)
  have h2: "JSON_parse ?t = Some ?j"
    by (simp add: json_eval)
  have h3: "get_property ?j (str ''state'') \<noteq> Some (JString (str ''OPEN''))"
    by (simp add: get_property_def str_def)
  have h4: "tryParseJSON True ?t \<noteq> []"
    by (simp add: tryParseJSON_eval)
  note th = published_state_never_unknown [of True ?t ?ps ?t ?j]
  have c1: "list_all (\<lambda>sig. hand_state sig = CLOSED) (tryParseJSON True ?t)"
    unfolding list_all_iff using th h1 h2 h3 by blast
  have c2: "list_all (\<lambda>sig. hand_state sig = OPEN \<or> hand_state sig = CLOSED)
              (handleMessage True ?ps)"
    unfolding list_all_iff using th by blast
  show ?thesis
    by (rule conjI [OF h1 conjI [OF h2 conjI [OF h3 conjI [OF h4 conjI [OF c1 c2]]]]])
qed

section \<open>The frame-capture timer\<close>

text \<open>
  C9 (as amended). On a tick of the timer before \<^verbatim>\<open>connect\<close> has stored a session promise,
  the tick is skipped: nothing is drawn, submitted or raised, and the service is left as
  it was. While the promise is pending, a tick without a 2D context or without a video
  width is skipped too; otherwise the tick submits nothing itself and raises nothing, but
  it is not skipped: it resizes the canvas, and the frame it has captured waits for the
  session and is submitted when the session is established, after the frames that waited
  before it.
\<close>

theorem tick_before_session:
  "(sessionPromise s = None \<longrightarrow>
      startVideoStreaming_tick ctx videoWidth videoHeight base64Data s = (Skipped, s)) \<and>
   (sessionPromise s = Some Pending \<and> (\<not> ctx \<or> videoWidth = 0) \<longrightarrow>
      startVideoStreaming_tick ctx videoWidth videoHeight base64Data s = (Skipped, s)) \<and>
   (sessionPromise s = Some Pending \<and> ctx \<and> videoWidth \<noteq> 0 \<longrightarrow>
      startVideoStreaming_tick ctx videoWidth videoHeight base64Data s
        = (Deferred, s\<lparr>canvas_size := (videoWidth div 2, videoHeight div 2),
                        waiting := waiting s @ [base64Data]\<rparr>) \<and>
      sent (snd (startVideoStreaming_tick ctx videoWidth videoHeight base64Data s)) = sent s \<and>
      sent (session_established
              (snd (startVideoStreaming_tick ctx videoWidth videoHeight base64Data s)))
        = sent s @ concat (map frame_inputs (waiting s)) @ frame_inputs base64Data)"
  by (simp add: startVideoStreaming_tick_def session_established_def Let_def)

text \<open>
  The theorem at a service that has not connected, and at one that is connecting, with
  and without a 2D context.
\<close>

theorem tick_before_session_witness:
  "sessionPromise service_init = None \<and>
   startVideoStreaming_tick True 640 480 (str ''AAAA'') service_init = (Skipped, service_init) \<and>
   sessionPromise (service_init\<lparr>sessionPromise := Some Pending\<rparr>) = Some Pending \<and>
   (640 :: nat) \<noteq> 0 \<and>
   startVideoStreaming_tick True 640 480 (str ''AAAA'')
       (service_init\<lparr>sessionPromise := Some Pending\<rparr>)
     = (Deferred, service_init\<lparr>sessionPromise := Some Pending\<rparr>
                    \<lparr>canvas_size := (640 div 2, 480 div 2),
                     waiting := waiting (service_init\<lparr>sessionPromise := Some Pending\<rparr>)
                                @ [str ''AAAA'']\<rparr>) \<and>
   sent (snd (startVideoStreaming_tick True 640 480 (str ''AAAA'')
                (service_init\<lparr>sessionPromise := Some Pending\<rparr>)))
     = sent (service_init\<lparr>sessionPromise := Some Pending\<rparr>) \<and>
   startVideoStreaming_tick False 640 480 (str ''AAAA'')
       (service_init\<lparr>sessionPromise := Some Pending\<rparr>)
     = (Skipped, service_init\<lparr>sessionPromise := Some Pending\<rparr>)"
proof -
  let ?p = "service_init\<lparr>sessionPromise := Some Pending\<rparr>"
  have a: "sessionPromise service_init = None" by (simp add: service_init_def)
  have b: "sessionPromise ?p = Some Pending" by simp
  have c: "(640 :: nat) \<noteq> 0" by simp
  show ?thesis
    using a b c tick_before_session [of service_init True 640 480 "str ''AAAA''"]
      tick_before_session [of ?p True 640 480 "str ''AAAA''"]
      tick_before_session [of ?p False 640 480 "str ''AAAA''"]
    by blast
qed

text \<open>
  C9 as stated fails while the session promise is pending, when the session is not yet
  established either: the tick is not skipped. It leaves the canvas at 320 by 240 and
  the captured frame waiting, and that frame is submitted once the session is
  established.
\<close>

theorem pending_tick_not_skipped:
  "sessionPromise (service_init\<lparr>sessionPromise := Some Pending\<rparr>) = Some Pending \<and>
   startVideoStreaming_tick True 640 480 (str ''AAAA'')
       (service_init\<lparr>sessionPromise := Some Pending\<rparr>)
     = (Deferred, \<lparr>sessionPromise = Some Pending, waiting = [str ''AAAA''], sent = [],
                   canvas_size = (320, 240)\<rparr>) \<and>
   startVideoStreaming_tick True 640 480 (str ''AAAA'')
       (service_init\<lparr>sessionPromise := Some Pending\<rparr>)
     \<noteq> (Skipped, service_init\<lparr>sessionPromise := Some Pending\<rparr>) \<and>
   sent (session_established
           (snd (startVideoStreaming_tick True 640 480 (str ''AAAA'')
                   (service_init\<lparr>sessionPromise := Some Pending\<rparr>))))
     = frame_inputs (str ''AAAA'')"
  by (simp add: startVideoStreaming_tick_def session_established_def service_init_def Let_def)

text \<open>
  The frame of a tick made while the promise is pending is submitted once the session is
  established, after the frames that were waiting before it.
\<close>

lemma deferred_frame_sent_when_established:
  assumes "sessionPromise s = Some Pending" "ctx" "videoWidth \<noteq> 0"
  shows "sent (session_established (snd (startVideoStreaming_tick ctx videoWidth videoHeight base64Data s)))
           = sent s @ concat (map frame_inputs (waiting s)) @ frame_inputs base64Data"
  using assms by (simp add: startVideoStreaming_tick_def session_established_def Let_def)

end
